theory Spec2Isabelle
  imports Complex_Main
begin

section \<open>The map controller of \<open>static/js/map.js\<close>\<close>

text \<open>
  The script wires the controls of a page to a mapping provider. Its state is the eight
  module-level variables, the document, and the provider objects it creates. Every
  function of the script becomes a function from the state to either an error (the
  exception the JavaScript would throw) or the next state.

  Coordinates are only stored and handed on, never computed with; they are modelled as
  exact decimals.
\<close>

subsection \<open>Values\<close>

record lat_lng =
  lat :: rat
  lng :: rat

datatype error = TypeError | InvalidValueError

text \<open>
  The functions the script registers as listeners: the four named functions it passes
  by reference, and its six anonymous function expressions, named after the event
  they serve.
\<close>

datatype handler =
    PerformSearch | CalculateDirections | ClearMap | GetCurrentLocation
  | MapTypeChange | TrafficChange
  | StartPlaceChanged | EndPlaceChanged
  | MapClick | DirectionsChanged

subsection \<open>The document\<close>

text \<open>
  An element carries what the script reads from it (\<open>value\<close>, \<open>checked\<close>) and the
  listeners attached to it. A reference to an element is its identifier; the lookup
  returns \<open>None\<close> for JavaScript's \<open>null\<close>.
\<close>

record element =
  el_value :: string
  el_checked :: bool
  el_listeners :: "(string \<times> handler) list"

type_synonym document = "string \<rightharpoonup> element"

definition getElementById :: "document \<Rightarrow> string \<Rightarrow> string option" where
  "getElementById doc i = (case doc i of None \<Rightarrow> None | Some el \<Rightarrow> Some i)"

subsection \<open>Provider objects\<close>

text \<open>
  The provider's objects are outside the repository. Each is modelled by the
  properties the script sets on it; a constructor or setter stores its argument.
  Objects that refer to the map hold its reference (\<open>map_id\<close>), not a copy.
\<close>

record map_options =
  zoom :: nat
  center :: lat_lng
  mapTypeControl :: bool
  streetViewControl :: bool
  fullscreenControl :: bool
  zoomControl :: bool

record map_view = map_options +
  map_id :: nat
  mapDiv :: "string option"
  mapTypeId :: "string option"
  map_listeners :: "(string \<times> handler) list"

datatype directions_service = DirectionsService

datatype directions_result = DirectionsResult nat

record directions_renderer =
  draggable :: bool
  panel :: "string option"
  dr_map :: "nat option"
  directions :: "directions_result option"
  dr_listeners :: "(string \<times> handler) list"

record places_service =
  ps_map :: "nat option"

record place_geometry =
  location :: lat_lng

record place_result =
  name :: string
  geometry :: "place_geometry option"

record autocomplete =
  ac_input :: string
  ac_bindings :: "(string \<times> nat option) list"
  ac_place :: "place_result option"
  ac_listeners :: "(string \<times> handler) list"

record traffic_layer =
  tl_map :: "nat option"

record marker =
  position :: lat_lng
  title :: string
  role :: string

text \<open>
  What the provider's \<open>Map\<close> constructor does with the container it is given is the
  provider's business: \<open>check\<close> is its verdict on the container (an error to throw,
  or none).
\<close>

definition new_Map ::
  "(string option \<Rightarrow> error option) \<Rightarrow> nat \<Rightarrow> string option \<Rightarrow> map_options \<Rightarrow> error + map_view" where
  "new_Map check ref container opts =
     (case check container of
        Some e \<Rightarrow> Inl e
      | None \<Rightarrow> Inr \<lparr>zoom = zoom opts, center = center opts,
                  mapTypeControl = mapTypeControl opts,
                  streetViewControl = streetViewControl opts,
                  fullscreenControl = fullscreenControl opts,
                  zoomControl = zoomControl opts,
                  map_id = ref, mapDiv = container, mapTypeId = None,
                  map_listeners = []\<rparr>)"

definition new_DirectionsRenderer :: "bool \<Rightarrow> string option \<Rightarrow> directions_renderer" where
  "new_DirectionsRenderer d p =
     \<lparr>draggable = d, panel = p, dr_map = None, directions = None, dr_listeners = []\<rparr>"

definition new_Autocomplete :: "string \<Rightarrow> autocomplete" where
  "new_Autocomplete inp =
     \<lparr>ac_input = inp, ac_bindings = [], ac_place = None, ac_listeners = []\<rparr>"

definition new_TrafficLayer :: traffic_layer where
  "new_TrafficLayer = \<lparr>tl_map = None\<rparr>"

subsection \<open>The state of the script\<close>

text \<open>
  The eight \<open>let\<close> variables of the module (\<open>map\<close> is \<open>map_var\<close> here), the document,
  the counter that numbers the maps created, the \<open>trafficLayer\<close> constant that the
  traffic listener closes over, and the requests issued so far to the browser's
  geolocation and for place details. \<open>None\<close> is JavaScript's \<open>undefined\<close>.
\<close>

record app_state =
  document :: document
  allocated :: nat
  map_var :: "map_view option"
  directionsService :: "directions_service option"
  directionsRenderer :: "directions_renderer option"
  placesService :: "places_service option"
  autocompleteStart :: "autocomplete option"
  autocompleteEnd :: "autocomplete option"
  markers :: "marker list"
  currentLocationMarker :: "marker option"
  trafficLayer :: "traffic_layer option"
  geolocation_requests :: nat
  details_requests :: "(string \<times> lat_lng) list"

text \<open>The state when the script has been loaded and nothing has run.\<close>

definition page_load :: "document \<Rightarrow> app_state" where
  "page_load doc =
     \<lparr>document = doc, allocated = 0, map_var = None, directionsService = None,
      directionsRenderer = None, placesService = None, autocompleteStart = None,
      autocompleteEnd = None, markers = [], currentLocationMarker = None,
      trafficLayer = None, geolocation_requests = 0, details_requests = []\<rparr>"

definition and_then :: "error + 'a \<Rightarrow> ('a \<Rightarrow> error + 'b) \<Rightarrow> error + 'b" where
  "and_then r f = (case r of Inl e \<Rightarrow> Inl e | Inr x \<Rightarrow> f x)"

text \<open>The reference held by the variable \<open>map\<close>, as an argument to a provider call.\<close>

definition map_ref :: "app_state \<Rightarrow> nat option" where
  "map_ref s = (case map_var s of None \<Rightarrow> None | Some m \<Rightarrow> Some (map_id m))"

text \<open>
  A method call on a variable that is \<open>undefined\<close>, or on \<open>null\<close>, throws a
  \<open>TypeError\<close>.
\<close>

definition on_map :: "(map_view \<Rightarrow> map_view) \<Rightarrow> app_state \<Rightarrow> error + app_state" where
  "on_map f s =
     (case map_var s of None \<Rightarrow> Inl TypeError
      | Some m \<Rightarrow> Inr (s\<lparr>map_var := Some (f m)\<rparr>))"

definition on_directionsRenderer ::
  "(directions_renderer \<Rightarrow> directions_renderer) \<Rightarrow> app_state \<Rightarrow> error + app_state" where
  "on_directionsRenderer f s =
     (case directionsRenderer s of None \<Rightarrow> Inl TypeError
      | Some r \<Rightarrow> Inr (s\<lparr>directionsRenderer := Some (f r)\<rparr>))"

definition on_autocompleteStart ::
  "(autocomplete \<Rightarrow> autocomplete) \<Rightarrow> app_state \<Rightarrow> error + app_state" where
  "on_autocompleteStart f s =
     (case autocompleteStart s of None \<Rightarrow> Inl TypeError
      | Some a \<Rightarrow> Inr (s\<lparr>autocompleteStart := Some (f a)\<rparr>))"

definition on_autocompleteEnd ::
  "(autocomplete \<Rightarrow> autocomplete) \<Rightarrow> app_state \<Rightarrow> error + app_state" where
  "on_autocompleteEnd f s =
     (case autocompleteEnd s of None \<Rightarrow> Inl TypeError
      | Some a \<Rightarrow> Inr (s\<lparr>autocompleteEnd := Some (f a)\<rparr>))"

definition on_trafficLayer ::
  "(traffic_layer \<Rightarrow> traffic_layer) \<Rightarrow> app_state \<Rightarrow> error + app_state" where
  "on_trafficLayer f s =
     (case trafficLayer s of None \<Rightarrow> Inl TypeError
      | Some t \<Rightarrow> Inr (s\<lparr>trafficLayer := Some (f t)\<rparr>))"

text \<open>
  The four named functions are the same function object each time they are passed; a
  function expression yields a new function object each time it is evaluated.
\<close>

definition named :: "handler \<Rightarrow> bool" where
  "named h =
     (case h of
        PerformSearch \<Rightarrow> True | CalculateDirections \<Rightarrow> True
      | ClearMap \<Rightarrow> True | GetCurrentLocation \<Rightarrow> True
      | MapTypeChange \<Rightarrow> False | TrafficChange \<Rightarrow> False
      | StartPlaceChanged \<Rightarrow> False | EndPlaceChanged \<Rightarrow> False
      | MapClick \<Rightarrow> False | DirectionsChanged \<Rightarrow> False)"

text \<open>
  The document's rule for a registration: one whose event type and function are already
  among the element's listeners is ignored, any other is appended. A new function
  object is never already there.
\<close>

definition register ::
  "string \<times> handler \<Rightarrow> (string \<times> handler) list \<Rightarrow> (string \<times> handler) list" where
  "register l ls = (if named (snd l) \<and> l \<in> set ls then ls else ls @ [l])"

text \<open>
  \<open>target.addEventListener(type, listener)\<close>: throws on \<open>null\<close>, otherwise registers the
  listener on the element. A reference that the lookup returned names an element of the
  document; for any other reference nothing is recorded.
\<close>

definition addEventListener ::
  "string option \<Rightarrow> string \<Rightarrow> handler \<Rightarrow> app_state \<Rightarrow> error + app_state" where
  "addEventListener target ev h s =
     (case target of
        None \<Rightarrow> Inl TypeError
      | Some i \<Rightarrow>
          (case document s i of
             None \<Rightarrow> Inr s
           | Some el \<Rightarrow>
               Inr (s\<lparr>document :=
                        (document s)(i \<mapsto> el\<lparr>el_listeners := register (ev, h) (el_listeners el)\<rparr>)\<rparr>)))"

subsection \<open>Functions of the script that the source file does not contain\<close>

text \<open>
  The source file ends inside \<open>setupEventListeners\<close>; the functions below are called by
  the code that is there but defined after the cut.
\<close>

text \<open>
  Modelled from the spec: \<open>getCurrentLocation\<close> is not in the source file. The spec:
  it "requests the browser's geolocation capability asynchronously"; what happens on
  success or failure happens later, in a callback. The call itself records the request.
\<close>

definition getCurrentLocation :: "app_state \<Rightarrow> error + app_state" where
  "getCurrentLocation s = Inr (s\<lparr>geolocation_requests := Suc (geolocation_requests s)\<rparr>)"

text \<open>
  Modelled from the spec: \<open>addMarker\<close> is not in the source file. The spec: a Marker is
  "a labeled point (coordinate, display label, role tag)", "collected in an ordered
  sequence; appended on placement events".
\<close>

definition addMarker :: "lat_lng \<Rightarrow> string \<Rightarrow> string \<Rightarrow> app_state \<Rightarrow> error + app_state" where
  "addMarker loc label tag s =
     Inr (s\<lparr>markers := markers s @ [\<lparr>position = loc, title = label, role = tag\<rparr>]\<rparr>)"

text \<open>
  Modelled from the spec: \<open>getPlaceDetails\<close> is not in the source file. The spec: it
  "fetches place details for that identifier and the clicked coordinate (downstream
  handling not shown)". The call records the request.
\<close>

definition getPlaceDetails :: "string \<Rightarrow> lat_lng \<Rightarrow> app_state \<Rightarrow> error + app_state" where
  "getPlaceDetails pid pos s = Inr (s\<lparr>details_requests := details_requests s @ [(pid, pos)]\<rparr>)"

text \<open>
  Modelled from the spec: \<open>clearMap\<close> is not in the source file. The spec: it "removes
  all markers from the sequence and clears the current route/render state".
\<close>

definition clearMap :: "app_state \<Rightarrow> error + app_state" where
  "clearMap s =
     Inr (s\<lparr>markers := [],
            directionsRenderer :=
              (case directionsRenderer s of None \<Rightarrow> None
               | Some r \<Rightarrow> Some (r\<lparr>directions := None\<rparr>))\<rparr>)"

subsection \<open>\<open>setupAutocomplete\<close>\<close>

definition setupAutocomplete :: "app_state \<Rightarrow> error + app_state" where
  "setupAutocomplete s =
     (let startInput = getElementById (document s) ''start-location'';
          endInput = getElementById (document s) ''end-location''
      in and_then
           (case startInput of
              None \<Rightarrow> Inr s
            | Some inp \<Rightarrow>
                and_then (Inr (s\<lparr>autocompleteStart := Some (new_Autocomplete inp)\<rparr>)) (\<lambda>s.
                and_then (on_autocompleteStart
                   (\<lambda>a. a\<lparr>ac_bindings := ac_bindings a @ [(''bounds'', map_ref s)]\<rparr>) s) (\<lambda>s.
                on_autocompleteStart
                   (\<lambda>a. a\<lparr>ac_listeners :=
                            ac_listeners a @ [(''place_changed'', StartPlaceChanged)]\<rparr>) s)))
           (\<lambda>s.
              case endInput of
                None \<Rightarrow> Inr s
              | Some inp \<Rightarrow>
                  and_then (Inr (s\<lparr>autocompleteEnd := Some (new_Autocomplete inp)\<rparr>)) (\<lambda>s.
                  and_then (on_autocompleteEnd
                     (\<lambda>a. a\<lparr>ac_bindings := ac_bindings a @ [(''bounds'', map_ref s)]\<rparr>) s) (\<lambda>s.
                  on_autocompleteEnd
                     (\<lambda>a. a\<lparr>ac_listeners :=
                              ac_listeners a @ [(''place_changed'', EndPlaceChanged)]\<rparr>) s))))"

text \<open>The two \<open>place_changed\<close> listeners.\<close>

definition startPlaceChanged :: "app_state \<Rightarrow> error + app_state" where
  "startPlaceChanged s =
     (case autocompleteStart s of
        None \<Rightarrow> Inl TypeError
      | Some a \<Rightarrow>
          (case ac_place a of
             None \<Rightarrow> Inl TypeError
           | Some place \<Rightarrow>
               (case geometry place of
                  None \<Rightarrow> Inr s
                | Some g \<Rightarrow>
                    and_then (on_map (\<lambda>m. m\<lparr>center := location g\<rparr>) s)
                      (addMarker (location g) (name place) ''start''))))"

definition endPlaceChanged :: "app_state \<Rightarrow> error + app_state" where
  "endPlaceChanged s =
     (case autocompleteEnd s of
        None \<Rightarrow> Inl TypeError
      | Some a \<Rightarrow>
          (case ac_place a of
             None \<Rightarrow> Inl TypeError
           | Some place \<Rightarrow>
               (case geometry place of
                  None \<Rightarrow> Inr s
                | Some g \<Rightarrow> addMarker (location g) (name place) ''end'' s)))"

subsection \<open>\<open>setupEventListeners\<close>\<close>

text \<open>
  The listeners of the map-type selector and of the traffic checkbox; \<open>this\<close> is the
  element the event fired on.
\<close>

definition mapTypeChange :: "element \<Rightarrow> app_state \<Rightarrow> error + app_state" where
  "mapTypeChange this s = on_map (\<lambda>m. m\<lparr>mapTypeId := Some (el_value this)\<rparr>) s"

definition trafficChange :: "element \<Rightarrow> app_state \<Rightarrow> error + app_state" where
  "trafficChange this s =
     (if el_checked this
      then on_trafficLayer (\<lambda>t. t\<lparr>tl_map := map_ref s\<rparr>) s
      else on_trafficLayer (\<lambda>t. t\<lparr>tl_map := None\<rparr>) s)"

text \<open>
  The click listener of the map. The event carries the place identifier the click
  resolved to, if any, the clicked coordinate, and whether it has been stopped. An
  identifier is truthy when it is there and not the empty string. The source file
  ends after the call of \<open>getPlaceDetails\<close>; what the listener does with a click that
  has no place identifier is not in it, and is left as no change here.
\<close>

record click_event =
  placeId :: "string option"
  latLng :: lat_lng
  stopped :: bool

definition mapClick :: "click_event \<Rightarrow> app_state \<Rightarrow> error + (click_event \<times> app_state)" where
  "mapClick event s =
     (case placeId event of
        None \<Rightarrow> Inr (event, s)
      | Some pid \<Rightarrow>
          if pid \<noteq> [] then
            (let event' = event\<lparr>stopped := True\<rparr>
             in and_then (getPlaceDetails pid (latLng event') s) (\<lambda>s'. Inr (event', s')))
          else Inr (event, s))"

definition setupEventListeners :: "app_state \<Rightarrow> error + app_state" where
  "setupEventListeners s =
     and_then
       (let searchBtn = getElementById (document s) ''search-btn''
        in if searchBtn \<noteq> None then addEventListener searchBtn ''click'' PerformSearch s
           else Inr s) (\<lambda>s.
     and_then
       (let directionsBtn = getElementById (document s) ''directions-btn''
        in if directionsBtn \<noteq> None
           then addEventListener directionsBtn ''click'' CalculateDirections s
           else Inr s) (\<lambda>s.
     and_then
       (let clearBtn = getElementById (document s) ''clear-btn''
        in if clearBtn \<noteq> None then addEventListener clearBtn ''click'' ClearMap s
           else Inr s) (\<lambda>s.
     and_then
       (let myLocationBtn = getElementById (document s) ''my-location-btn''
        in if myLocationBtn \<noteq> None
           then addEventListener myLocationBtn ''click'' GetCurrentLocation s
           else Inr s) (\<lambda>s.
     and_then
       (let mapTypeSelect = getElementById (document s) ''map-type''
        in if mapTypeSelect \<noteq> None
           then addEventListener mapTypeSelect ''change'' MapTypeChange s
           else Inr s) (\<lambda>s.
     and_then
       (let trafficToggle = getElementById (document s) ''traffic-toggle''
        in if trafficToggle \<noteq> None
           then and_then (Inr (s\<lparr>trafficLayer := Some new_TrafficLayer\<rparr>))
                  (addEventListener trafficToggle ''change'' TrafficChange)
           else Inr s) (\<lambda>s.
     on_map (\<lambda>m. m\<lparr>map_listeners := map_listeners m @ [(''click'', MapClick)]\<rparr>) s))))))"

subsection \<open>\<open>initMap\<close>\<close>

definition initMap_options :: map_options where
  "initMap_options =
     \<lparr>zoom = 13, center = \<lparr>lat = 377749 / 10000, lng = - (1224194 / 10000)\<rparr>,
      mapTypeControl = True, streetViewControl = True,
      fullscreenControl = True, zoomControl = True\<rparr>"

definition initMap :: "(string option \<Rightarrow> error option) \<Rightarrow> app_state \<Rightarrow> error + app_state" where
  "initMap check s =
     and_then (new_Map check (allocated s) (getElementById (document s) ''map'') initMap_options)
       (\<lambda>m.
     and_then (Inr (s\<lparr>map_var := Some m, allocated := Suc (allocated s)\<rparr>)) (\<lambda>s.
     and_then (Inr (s\<lparr>directionsService := Some DirectionsService\<rparr>)) (\<lambda>s.
     and_then (Inr (s\<lparr>directionsRenderer :=
                       Some (new_DirectionsRenderer True
                               (getElementById (document s) ''directions-panel''))\<rparr>)) (\<lambda>s.
     and_then (on_directionsRenderer (\<lambda>r. r\<lparr>dr_map := map_ref s\<rparr>) s) (\<lambda>s.
     and_then (Inr (s\<lparr>placesService := Some \<lparr>ps_map = map_ref s\<rparr>\<rparr>)) (\<lambda>s.
     and_then (setupAutocomplete s) (\<lambda>s.
     and_then (getCurrentLocation s) (\<lambda>s.
     and_then (setupEventListeners s) (\<lambda>s.
     on_directionsRenderer
       (\<lambda>r. r\<lparr>dr_listeners := dr_listeners r @ [(''directions_changed'', DirectionsChanged)]\<rparr>)
       s)))))))))"

subsection \<open>What the registrations add up to\<close>

text \<open>
  The effect of one guarded registration on the document, the effect of the six of
  \<open>setupEventListeners\<close> together, the listener the script has for each identifier,
  an element's listeners once that one has been registered, and the state \<open>initMap\<close>
  leaves behind when the provider accepts the container.
\<close>

definition attach :: "string \<Rightarrow> string \<Rightarrow> handler \<Rightarrow> document \<Rightarrow> document" where
  "attach i ev h doc =
     (case doc i of None \<Rightarrow> doc
      | Some el \<Rightarrow> doc(i \<mapsto> el\<lparr>el_listeners := register (ev, h) (el_listeners el)\<rparr>))"

definition wired :: "document \<Rightarrow> document" where
  "wired doc =
     attach ''traffic-toggle'' ''change'' TrafficChange
       (attach ''map-type'' ''change'' MapTypeChange
          (attach ''my-location-btn'' ''click'' GetCurrentLocation
             (attach ''clear-btn'' ''click'' ClearMap
                (attach ''directions-btn'' ''click'' CalculateDirections
                   (attach ''search-btn'' ''click'' PerformSearch doc)))))"

definition listeners_added :: "string \<Rightarrow> (string \<times> handler) list" where
  "listeners_added i =
     (if i = ''search-btn'' then [(''click'', PerformSearch)]
      else if i = ''directions-btn'' then [(''click'', CalculateDirections)]
      else if i = ''clear-btn'' then [(''click'', ClearMap)]
      else if i = ''my-location-btn'' then [(''click'', GetCurrentLocation)]
      else if i = ''map-type'' then [(''change'', MapTypeChange)]
      else if i = ''traffic-toggle'' then [(''change'', TrafficChange)]
      else [])"

definition registered :: "string \<Rightarrow> (string \<times> handler) list \<Rightarrow> (string \<times> handler) list" where
  "registered i ls = fold register (listeners_added i) ls"

definition initialized :: "app_state \<Rightarrow> app_state" where
  "initialized s =
     s\<lparr>document := wired (document s),
       allocated := Suc (allocated s),
       map_var :=
         Some \<lparr>zoom = 13, center = \<lparr>lat = 377749 / 10000, lng = - (1224194 / 10000)\<rparr>,
               mapTypeControl = True, streetViewControl = True,
               fullscreenControl = True, zoomControl = True,
               map_id = allocated s, mapDiv = getElementById (document s) ''map'',
               mapTypeId = None, map_listeners = [(''click'', MapClick)]\<rparr>,
       directionsService := Some DirectionsService,
       directionsRenderer :=
         Some \<lparr>draggable = True,
               panel = getElementById (document s) ''directions-panel'',
               dr_map = Some (allocated s), directions = None,
               dr_listeners = [(''directions_changed'', DirectionsChanged)]\<rparr>,
       placesService := Some \<lparr>ps_map = Some (allocated s)\<rparr>,
       autocompleteStart :=
         (case document s ''start-location'' of
            None \<Rightarrow> autocompleteStart s
          | Some el \<Rightarrow>
              Some \<lparr>ac_input = ''start-location'',
                    ac_bindings = [(''bounds'', Some (allocated s))], ac_place = None,
                    ac_listeners = [(''place_changed'', StartPlaceChanged)]\<rparr>),
       autocompleteEnd :=
         (case document s ''end-location'' of
            None \<Rightarrow> autocompleteEnd s
          | Some el \<Rightarrow>
              Some \<lparr>ac_input = ''end-location'',
                    ac_bindings = [(''bounds'', Some (allocated s))], ac_place = None,
                    ac_listeners = [(''place_changed'', EndPlaceChanged)]\<rparr>),
       trafficLayer :=
         (case document s ''traffic-toggle'' of
            None \<Rightarrow> trafficLayer s
          | Some el \<Rightarrow> Some new_TrafficLayer),
       geolocation_requests := Suc (geolocation_requests s)\<rparr>"

subsection \<open>Notions used to state the properties\<close>

text \<open>
  The provider stores the selected place in the autocomplete object before it notifies
  the \<open>place_changed\<close> listeners; \<open>getPlace\<close> returns what was stored.
\<close>

definition start_selected :: "place_result \<Rightarrow> app_state \<Rightarrow> app_state" where
  "start_selected p s =
     s\<lparr>autocompleteStart := map_option (\<lambda>a. a\<lparr>ac_place := Some p\<rparr>) (autocompleteStart s)\<rparr>"

definition end_selected :: "place_result \<Rightarrow> app_state \<Rightarrow> app_state" where
  "end_selected p s =
     s\<lparr>autocompleteEnd := map_option (\<lambda>a. a\<lparr>ac_place := Some p\<rparr>) (autocompleteEnd s)\<rparr>"

text \<open>The route the renderer shows, if any.\<close>

definition rendered_route :: "app_state \<Rightarrow> directions_result option" where
  "rendered_route s = (case directionsRenderer s of None \<Rightarrow> None | Some r \<Rightarrow> directions r)"

text \<open>Adding markers one after the other, each by a call of \<open>addMarker\<close>.\<close>

fun addMarkers :: "(lat_lng \<times> string \<times> string) list \<Rightarrow> app_state \<Rightarrow> error + app_state" where
  "addMarkers [] s = Inr s"
| "addMarkers ((loc, label, tag) # ms) s = and_then (addMarker loc label tag s) (addMarkers ms)"

definition san_francisco :: lat_lng where
  "san_francisco = \<lparr>lat = 377749 / 10000, lng = - (1224194 / 10000)\<rparr>"

text \<open>
  The spec's words, to compare \<open>initMap\<close> with: initialization "creates Map View" from
  the container, the initial centre and the initial zoom it is given.
\<close>

definition spec_view_created_from :: "string option \<Rightarrow> lat_lng \<Rightarrow> nat \<Rightarrow> app_state \<Rightarrow> bool" where
  "spec_view_created_from container c z s =
     (case map_var s of None \<Rightarrow> False
      | Some m \<Rightarrow> mapDiv m = container \<and> center m = c \<and> zoom m = z)"

subsection \<open>A page and two providers to run the script on\<close>

text \<open>
  A page with the container, both location inputs, the clear button, the map-type
  selector and the traffic checkbox, and without the other three buttons and the
  directions panel; a page with the container and nothing else; a page with the clear
  button and no container; a page whose clear button and map-type selector already hold
  the listeners of an earlier run. One provider takes any container; the other throws
  on \<open>null\<close>.
\<close>

definition plain :: element where
  "plain = \<lparr>el_value = [], el_checked = False, el_listeners = []\<rparr>"

definition example_page :: document where
  "example_page =
     [''map'' \<mapsto> plain,
      ''start-location'' \<mapsto> plain\<lparr>el_value := ''Ferry Building''\<rparr>,
      ''end-location'' \<mapsto> plain\<lparr>el_value := ''Coit Tower''\<rparr>,
      ''clear-btn'' \<mapsto> plain,
      ''map-type'' \<mapsto> plain\<lparr>el_value := ''satellite''\<rparr>,
      ''traffic-toggle'' \<mapsto> plain\<lparr>el_checked := True\<rparr>]"

definition bare_page :: document where
  "bare_page = [''map'' \<mapsto> plain]"

definition no_container_page :: document where
  "no_container_page = [''clear-btn'' \<mapsto> plain]"

definition revisited_page :: document where
  "revisited_page =
     [''map'' \<mapsto> plain,
      ''clear-btn'' \<mapsto> plain\<lparr>el_listeners := [(''click'', ClearMap)]\<rparr>,
      ''map-type'' \<mapsto> plain\<lparr>el_listeners := [(''change'', MapTypeChange)]\<rparr>]"

definition accepts_all :: "string option \<Rightarrow> error option" where
  "accepts_all c = None"

definition rejects_null :: "string option \<Rightarrow> error option" where
  "rejects_null c = (case c of None \<Rightarrow> Some InvalidValueError | Some i \<Rightarrow> None)"

text \<open>
  A place with geometry and one without; the state the script leaves on the example
  page, the same state after a selection of either place in both inputs, and a click
  on a place of the map.
\<close>

definition ferry_building :: place_result where
  "ferry_building =
     \<lparr>name = ''Ferry Building'',
      geometry = Some \<lparr>location = \<lparr>lat = 377955 / 10000, lng = - (1223937 / 10000)\<rparr>\<rparr>\<rparr>"

definition free_text :: place_result where
  "free_text = \<lparr>name = ''somewhere nice'', geometry = None\<rparr>"

definition example_state :: app_state where
  "example_state = initialized (page_load example_page)"

definition selected_state :: app_state where
  "selected_state = start_selected ferry_building (end_selected ferry_building example_state)"

definition unresolved_state :: app_state where
  "unresolved_state = start_selected free_text (end_selected free_text example_state)"

definition place_click :: click_event where
  "place_click =
     \<lparr>placeId = Some ''ChIJmRyMs_mAhYARpViaf6JEWNE'',
      latLng = \<lparr>lat = 377955 / 10000, lng = - (1223937 / 10000)\<rparr>,
      stopped = False\<rparr>"

section \<open>Properties\<close>

subsection \<open>Sequencing and registration\<close>

lemma and_then_Inr [simp]: "and_then (Inr x) f = f x"
  by (simp add: and_then_def)

lemma and_then_Inl [simp]: "and_then (Inl e) f = Inl e"
  by (simp add: and_then_def)

lemma addEventListener_null: "addEventListener None ev h s = Inl TypeError"
  by (simp add: addEventListener_def)

lemma guarded_listener:
  "(let b = getElementById (document s) i
    in if b \<noteq> None then addEventListener b ev h s else Inr s)
   = Inr (s\<lparr>document := attach i ev h (document s)\<rparr>)"
  by (cases "document s i")
     (simp_all add: Let_def addEventListener_def attach_def getElementById_def)

lemma guarded_traffic_listener:
  "(let t = getElementById (document s) i
    in if t \<noteq> None
       then addEventListener t ev h (s\<lparr>trafficLayer := Some new_TrafficLayer\<rparr>)
       else Inr s)
   = Inr (s\<lparr>document := attach i ev h (document s),
            trafficLayer := (case document s i of None \<Rightarrow> trafficLayer s
                             | Some el \<Rightarrow> Some new_TrafficLayer)\<rparr>)"
  by (cases "document s i")
     (simp_all add: Let_def addEventListener_def attach_def getElementById_def)

lemma attach_apply:
  "attach i ev h doc j =
     (if j = i
      then map_option (\<lambda>el. el\<lparr>el_listeners := register (ev, h) (el_listeners el)\<rparr>) (doc j)
      else doc j)"
  by (simp add: attach_def split: option.splits)

lemma attach_apply_if:
  "attach i ev h doc j =
     map_option
       (\<lambda>el. el\<lparr>el_listeners :=
                 (if j = i then register (ev, h) (el_listeners el) else el_listeners el)\<rparr>)
       (doc j)"
  by (cases "j = i") (simp_all add: attach_def option.map_ident split: option.splits)

lemma wired_apply:
  "wired doc i = map_option (\<lambda>el. el\<lparr>el_listeners := registered i (el_listeners el)\<rparr>) (doc i)"
  by (cases "doc i") (simp_all add: wired_def attach_apply_if listeners_added_def registered_def)

lemma register_fresh: "l \<notin> set ls \<Longrightarrow> register l ls = ls @ [l]"
  by (simp add: register_def)

subsection \<open>The three set-up functions as one state update each\<close>

lemma setupAutocomplete_eq:
  "setupAutocomplete s =
     Inr (s\<lparr>autocompleteStart :=
              (case document s ''start-location'' of
                 None \<Rightarrow> autocompleteStart s
               | Some el \<Rightarrow>
                   Some \<lparr>ac_input = ''start-location'', ac_bindings = [(''bounds'', map_ref s)],
                         ac_place = None,
                         ac_listeners = [(''place_changed'', StartPlaceChanged)]\<rparr>),
            autocompleteEnd :=
              (case document s ''end-location'' of
                 None \<Rightarrow> autocompleteEnd s
               | Some el \<Rightarrow>
                   Some \<lparr>ac_input = ''end-location'', ac_bindings = [(''bounds'', map_ref s)],
                         ac_place = None,
                         ac_listeners = [(''place_changed'', EndPlaceChanged)]\<rparr>)\<rparr>)"
  by (cases "document s ''start-location''"; cases "document s ''end-location''")
     (simp_all add: setupAutocomplete_def Let_def getElementById_def on_autocompleteStart_def
        on_autocompleteEnd_def new_Autocomplete_def map_ref_def)

lemma setupEventListeners_eq:
  "setupEventListeners s =
     (case map_var s of
        None \<Rightarrow> Inl TypeError
      | Some m \<Rightarrow>
          Inr (s\<lparr>document := wired (document s),
                 trafficLayer := (case document s ''traffic-toggle'' of
                                    None \<Rightarrow> trafficLayer s
                                  | Some el \<Rightarrow> Some new_TrafficLayer),
                 map_var := Some (m\<lparr>map_listeners :=
                                       map_listeners m @ [(''click'', MapClick)]\<rparr>)\<rparr>))"
  unfolding setupEventListeners_def guarded_listener guarded_traffic_listener and_then_Inr
  by (cases "document s ''traffic-toggle''")
     (simp_all add: on_map_def wired_def attach_apply split: option.splits)

lemma initMap_eq:
  "initMap check s =
     (case check (getElementById (document s) ''map'') of
        Some e \<Rightarrow> Inl e
      | None \<Rightarrow> Inr (initialized s))"
proof (cases "check (getElementById (document s) ''map'')")
  case (Some e)
  then show ?thesis by (simp add: initMap_def new_Map_def)
next
  case None
  then show ?thesis
    by (simp add: initMap_def new_Map_def initMap_options_def new_DirectionsRenderer_def
          on_directionsRenderer_def map_ref_def setupAutocomplete_eq getCurrentLocation_def
          setupEventListeners_eq initialized_def split: option.splits)
qed

subsection \<open>Initialization on a page that lacks controls\<close>

lemma registered_simps:
  "registered ''search-btn'' ls = register (''click'', PerformSearch) ls"
  "registered ''directions-btn'' ls = register (''click'', CalculateDirections) ls"
  "registered ''clear-btn'' ls = register (''click'', ClearMap) ls"
  "registered ''my-location-btn'' ls = register (''click'', GetCurrentLocation) ls"
  "registered ''map-type'' ls = register (''change'', MapTypeChange) ls"
  "registered ''traffic-toggle'' ls = register (''change'', TrafficChange) ls"
  "registered ''map'' ls = ls"
  "registered ''start-location'' ls = ls"
  "registered ''end-location'' ls = ls"
  "registered ''directions-panel'' ls = ls"
  by (simp_all add: registered_def listeners_added_def)

text \<open>
  C1, as the code has it. On every page and in every state of the script,
  initialization throws exactly when the provider's constructor throws for what the
  lookup of \<open>map\<close> returned, and throws that error. Otherwise it returns normally,
  whichever of the optional elements (the two location inputs, the four buttons, the
  map-type selector, the traffic checkbox) are absent. The document has the same
  elements afterwards, and each has had exactly the listener the script has for its
  identifier registered on it, by the document's rule. For each location input that is
  present there is a new autocomplete on that input, bound to the view, with its
  \<open>place_changed\<close> listener; for an absent input the variable is left as it was. The
  traffic layer is created when the checkbox is present and only then. The view has its
  click listener.
\<close>

theorem initMap_absent_optional_elements:
  "case check (getElementById (document s) ''map'') of
     Some e \<Rightarrow> initMap check s = Inl e
   | None \<Rightarrow>
       (\<exists>s' m. initMap check s = Inr s' \<and>
          (\<forall>i. document s' i =
                 map_option (\<lambda>el. el\<lparr>el_listeners := registered i (el_listeners el)\<rparr>)
                   (document s i)) \<and>
          autocompleteStart s' =
            (case document s ''start-location'' of
               None \<Rightarrow> autocompleteStart s
             | Some el \<Rightarrow>
                 Some \<lparr>ac_input = ''start-location'',
                       ac_bindings = [(''bounds'', Some (map_id m))], ac_place = None,
                       ac_listeners = [(''place_changed'', StartPlaceChanged)]\<rparr>) \<and>
          autocompleteEnd s' =
            (case document s ''end-location'' of
               None \<Rightarrow> autocompleteEnd s
             | Some el \<Rightarrow>
                 Some \<lparr>ac_input = ''end-location'',
                       ac_bindings = [(''bounds'', Some (map_id m))], ac_place = None,
                       ac_listeners = [(''place_changed'', EndPlaceChanged)]\<rparr>) \<and>
          trafficLayer s' =
            (case document s ''traffic-toggle'' of
               None \<Rightarrow> trafficLayer s
             | Some el \<Rightarrow> Some new_TrafficLayer) \<and>
          map_var s' = Some m \<and> map_listeners m = [(''click'', MapClick)])"
proof (cases "check (getElementById (document s) ''map'')")
  case (Some e)
  then show ?thesis by (simp add: initMap_eq)
next
  case None
  let ?s = "initialized s"
  have run: "initMap check s = Inr ?s"
    using None by (simp add: initMap_eq)
  obtain m where m: "map_var ?s = Some m" and first: "map_id m = allocated s"
    and click: "map_listeners m = [(''click'', MapClick)]"
    by (simp add: initialized_def)
  have listeners: "\<forall>i. document ?s i =
      map_option (\<lambda>el. el\<lparr>el_listeners := registered i (el_listeners el)\<rparr>) (document s i)"
    by (simp add: initialized_def wired_apply)
  have start: "autocompleteStart ?s =
            (case document s ''start-location'' of
               None \<Rightarrow> autocompleteStart s
             | Some el \<Rightarrow>
                 Some \<lparr>ac_input = ''start-location'',
                       ac_bindings = [(''bounds'', Some (map_id m))], ac_place = None,
                       ac_listeners = [(''place_changed'', StartPlaceChanged)]\<rparr>)"
    by (simp add: initialized_def first cong: option.case_cong)
  have finish: "autocompleteEnd ?s =
            (case document s ''end-location'' of
               None \<Rightarrow> autocompleteEnd s
             | Some el \<Rightarrow>
                 Some \<lparr>ac_input = ''end-location'',
                       ac_bindings = [(''bounds'', Some (map_id m))], ac_place = None,
                       ac_listeners = [(''place_changed'', EndPlaceChanged)]\<rparr>)"
    by (simp add: initialized_def first cong: option.case_cong)
  have traffic: "trafficLayer ?s =
            (case document s ''traffic-toggle'' of
               None \<Rightarrow> trafficLayer s
             | Some el \<Rightarrow> Some new_TrafficLayer)"
    by (simp add: initialized_def)
  have "\<exists>s' m. initMap check s = Inr s' \<and>
          (\<forall>i. document s' i =
                 map_option (\<lambda>el. el\<lparr>el_listeners := registered i (el_listeners el)\<rparr>)
                   (document s i)) \<and>
          autocompleteStart s' =
            (case document s ''start-location'' of
               None \<Rightarrow> autocompleteStart s
             | Some el \<Rightarrow>
                 Some \<lparr>ac_input = ''start-location'',
                       ac_bindings = [(''bounds'', Some (map_id m))], ac_place = None,
                       ac_listeners = [(''place_changed'', StartPlaceChanged)]\<rparr>) \<and>
          autocompleteEnd s' =
            (case document s ''end-location'' of
               None \<Rightarrow> autocompleteEnd s
             | Some el \<Rightarrow>
                 Some \<lparr>ac_input = ''end-location'',
                       ac_bindings = [(''bounds'', Some (map_id m))], ac_place = None,
                       ac_listeners = [(''place_changed'', EndPlaceChanged)]\<rparr>) \<and>
          trafficLayer s' =
            (case document s ''traffic-toggle'' of
               None \<Rightarrow> trafficLayer s
             | Some el \<Rightarrow> Some new_TrafficLayer) \<and>
          map_var s' = Some m \<and> map_listeners m = [(''click'', MapClick)]"
    using run listeners start finish traffic m click by blast
  with None show ?thesis by simp
qed

theorem initMap_absent_optional_elements_witness:
  "(\<exists>s' m. initMap accepts_all (page_load example_page) = Inr s' \<and>
      document s' ''search-btn'' = None \<and>
      document s' ''clear-btn'' = Some (plain\<lparr>el_listeners := [(''click'', ClearMap)]\<rparr>) \<and>
      document s' ''map'' = Some plain \<and>
      autocompleteStart s' =
        Some \<lparr>ac_input = ''start-location'', ac_bindings = [(''bounds'', Some (map_id m))],
              ac_place = None, ac_listeners = [(''place_changed'', StartPlaceChanged)]\<rparr> \<and>
      trafficLayer s' = Some new_TrafficLayer \<and>
      map_var s' = Some m \<and> map_listeners m = [(''click'', MapClick)]) \<and>
   (\<exists>s'. initMap rejects_null (page_load bare_page) = Inr s' \<and>
      document s' = bare_page \<and>
      autocompleteStart s' = None \<and> autocompleteEnd s' = None \<and> trafficLayer s' = None) \<and>
   (\<exists>s'. initMap accepts_all (page_load revisited_page) = Inr s' \<and>
      document s' ''clear-btn'' = Some (plain\<lparr>el_listeners := [(''click'', ClearMap)]\<rparr>) \<and>
      document s' ''map-type'' =
        Some (plain\<lparr>el_listeners := [(''change'', MapTypeChange), (''change'', MapTypeChange)]\<rparr>)) \<and>
   initMap rejects_null (page_load no_container_page) = Inl InvalidValueError"
proof -
  from initMap_absent_optional_elements [of accepts_all "page_load example_page"]
  obtain s1 m where run1: "initMap accepts_all (page_load example_page) = Inr s1"
    and doc1: "\<And>i. document s1 i =
        map_option (\<lambda>el. el\<lparr>el_listeners := registered i (el_listeners el)\<rparr>) (example_page i)"
    and start1: "autocompleteStart s1 =
        Some \<lparr>ac_input = ''start-location'', ac_bindings = [(''bounds'', Some (map_id m))],
              ac_place = None, ac_listeners = [(''place_changed'', StartPlaceChanged)]\<rparr>"
    and traffic1: "trafficLayer s1 = Some new_TrafficLayer"
    and map1: "map_var s1 = Some m" and click1: "map_listeners m = [(''click'', MapClick)]"
    by (auto simp add: accepts_all_def page_load_def example_page_def)
  have search1: "document s1 ''search-btn'' = None"
    by (simp add: doc1 example_page_def)
  have clear1: "document s1 ''clear-btn'' = Some (plain\<lparr>el_listeners := [(''click'', ClearMap)]\<rparr>)"
    by (simp add: doc1 example_page_def registered_simps register_def plain_def)
  have container1: "document s1 ''map'' = Some plain"
    by (simp add: doc1 example_page_def registered_simps plain_def)
  have first: "\<exists>s' m. initMap accepts_all (page_load example_page) = Inr s' \<and>
      document s' ''search-btn'' = None \<and>
      document s' ''clear-btn'' = Some (plain\<lparr>el_listeners := [(''click'', ClearMap)]\<rparr>) \<and>
      document s' ''map'' = Some plain \<and>
      autocompleteStart s' =
        Some \<lparr>ac_input = ''start-location'', ac_bindings = [(''bounds'', Some (map_id m))],
              ac_place = None, ac_listeners = [(''place_changed'', StartPlaceChanged)]\<rparr> \<and>
      trafficLayer s' = Some new_TrafficLayer \<and>
      map_var s' = Some m \<and> map_listeners m = [(''click'', MapClick)]"
    using run1 search1 clear1 container1 start1 traffic1 map1 click1 by blast
  from initMap_absent_optional_elements [of rejects_null "page_load bare_page"]
  obtain s2 where run2: "initMap rejects_null (page_load bare_page) = Inr s2"
    and doc2: "\<And>i. document s2 i =
        map_option (\<lambda>el. el\<lparr>el_listeners := registered i (el_listeners el)\<rparr>) (bare_page i)"
    and start2: "autocompleteStart s2 = None" and finish2: "autocompleteEnd s2 = None"
    and traffic2: "trafficLayer s2 = None"
    by (auto simp add: rejects_null_def getElementById_def page_load_def bare_page_def)
  have same2: "document s2 = bare_page"
  proof
    fix i show "document s2 i = bare_page i"
      by (simp add: doc2 bare_page_def registered_simps plain_def)
  qed
  have second: "\<exists>s'. initMap rejects_null (page_load bare_page) = Inr s' \<and>
      document s' = bare_page \<and>
      autocompleteStart s' = None \<and> autocompleteEnd s' = None \<and> trafficLayer s' = None"
    using run2 same2 start2 finish2 traffic2 by blast
  from initMap_absent_optional_elements [of accepts_all "page_load revisited_page"]
  obtain s3 where run3: "initMap accepts_all (page_load revisited_page) = Inr s3"
    and doc3: "\<And>i. document s3 i =
        map_option (\<lambda>el. el\<lparr>el_listeners := registered i (el_listeners el)\<rparr>) (revisited_page i)"
    by (auto simp add: accepts_all_def page_load_def)
  have clear3: "document s3 ''clear-btn'' = Some (plain\<lparr>el_listeners := [(''click'', ClearMap)]\<rparr>)"
    by (simp add: doc3 revisited_page_def registered_simps register_def named_def plain_def)
  have type3: "document s3 ''map-type'' =
        Some (plain\<lparr>el_listeners := [(''change'', MapTypeChange), (''change'', MapTypeChange)]\<rparr>)"
    by (simp add: doc3 revisited_page_def registered_simps register_def named_def plain_def)
  have third: "\<exists>s'. initMap accepts_all (page_load revisited_page) = Inr s' \<and>
      document s' ''clear-btn'' = Some (plain\<lparr>el_listeners := [(''click'', ClearMap)]\<rparr>) \<and>
      document s' ''map-type'' =
        Some (plain\<lparr>el_listeners := [(''change'', MapTypeChange), (''change'', MapTypeChange)]\<rparr>)"
    using run3 clear3 type3 by blast
  from initMap_absent_optional_elements [of rejects_null "page_load no_container_page"]
  have fourth: "initMap rejects_null (page_load no_container_page) = Inl InvalidValueError"
    by (simp add: rejects_null_def getElementById_def page_load_def no_container_page_def)
  from first second third fourth show ?thesis by blast
qed

text \<open>
  C1, as the spec has it, fails: on a page that has the clear button and lacks the other
  optional elements, and the container with them, initialization throws what a provider
  that rejects \<open>null\<close> throws.
\<close>

theorem initMap_throws_without_container_counterexample:
  "no_container_page ''clear-btn'' = Some plain \<and>
   getElementById no_container_page ''search-btn'' = None \<and>
   getElementById no_container_page ''traffic-toggle'' = None \<and>
   getElementById no_container_page ''map'' = None \<and>
   initMap rejects_null (page_load no_container_page) = Inl InvalidValueError"
  by (simp add: initMap_eq rejects_null_def getElementById_def page_load_def
        no_container_page_def)

subsection \<open>The example state\<close>

text \<open>The example state is the one \<open>initMap\<close> reaches on the example page.\<close>

lemma example_state_reached: "initMap accepts_all (page_load example_page) = Inr example_state"
  by (simp add: initMap_eq accepts_all_def example_state_def)

lemmas example_defs =
  selected_state_def unresolved_state_def start_selected_def end_selected_def example_state_def
  initialized_def page_load_def example_page_def plain_def

subsection \<open>Selecting a suggestion\<close>

text \<open>
  C2. When the place the autocomplete holds carries geometry, the listener of the start
  input re-centres the view on the place's location and appends one marker, at that
  location, labelled with the place's name and tagged \<open>start\<close>; the listener of the end
  input leaves the view as it is and appends one marker tagged \<open>end\<close>. Nothing else in
  the state changes. (The start listener needs the view to exist: it calls a method of
  the variable \<open>map\<close>.)
\<close>

theorem place_changed_with_geometry:
  assumes "ac_place a = Some place" and "geometry place = Some g"
  shows "(autocompleteStart s = Some a \<and> map_var s = Some m \<longrightarrow>
            startPlaceChanged s =
              Inr (s\<lparr>map_var := Some (m\<lparr>center := location g\<rparr>),
                     markers := markers s @
                       [\<lparr>position = location g, title = name place, role = ''start''\<rparr>]\<rparr>)) \<and>
         (autocompleteEnd s = Some a \<longrightarrow>
            endPlaceChanged s =
              Inr (s\<lparr>markers := markers s @
                       [\<lparr>position = location g, title = name place, role = ''end''\<rparr>]\<rparr>))"
  using assms
  by (simp add: startPlaceChanged_def endPlaceChanged_def on_map_def addMarker_def)

theorem place_changed_with_geometry_witness:
  "\<exists>a b m g.
     ac_place a = Some ferry_building \<and> ac_place b = Some ferry_building \<and>
     geometry ferry_building = Some g \<and>
     autocompleteStart selected_state = Some a \<and> autocompleteEnd selected_state = Some b \<and>
     map_var selected_state = Some m \<and>
     startPlaceChanged selected_state =
       Inr (selected_state\<lparr>map_var := Some (m\<lparr>center := location g\<rparr>),
              markers := [\<lparr>position = location g, title = ''Ferry Building'', role = ''start''\<rparr>]\<rparr>) \<and>
     endPlaceChanged selected_state =
       Inr (selected_state\<lparr>markers :=
              [\<lparr>position = location g, title = ''Ferry Building'', role = ''end''\<rparr>]\<rparr>)"
proof -
  obtain a where a: "autocompleteStart selected_state = Some a"
    and pa: "ac_place a = Some ferry_building"
    by (simp add: example_defs)
  obtain b where b: "autocompleteEnd selected_state = Some b"
    and pb: "ac_place b = Some ferry_building"
    by (simp add: example_defs)
  obtain m where m: "map_var selected_state = Some m"
    by (simp add: example_defs)
  obtain g where g: "geometry ferry_building = Some g"
    by (simp add: ferry_building_def)
  have none: "markers selected_state = []"
    by (simp add: example_defs)
  have label: "name ferry_building = ''Ferry Building''"
    by (simp add: ferry_building_def)
  from place_changed_with_geometry [of a ferry_building g selected_state m, OF pa g] a m
  have start: "startPlaceChanged selected_state =
       Inr (selected_state\<lparr>map_var := Some (m\<lparr>center := location g\<rparr>),
              markers := [\<lparr>position = location g, title = ''Ferry Building'', role = ''start''\<rparr>]\<rparr>)"
    by (simp add: none label)
  from place_changed_with_geometry [of b ferry_building g selected_state m, OF pb g] b
  have finish: "endPlaceChanged selected_state =
       Inr (selected_state\<lparr>markers :=
              [\<lparr>position = location g, title = ''Ferry Building'', role = ''end''\<rparr>]\<rparr>)"
    by (simp add: none label)
  from pa pb g a b m start finish show ?thesis by blast
qed

text \<open>
  C3. When the place the autocomplete holds has no geometry, either listener returns the
  state it was given: the markers, the view and the document are what they were.
\<close>

theorem place_changed_without_geometry:
  assumes "ac_place a = Some place" and "geometry place = None"
  shows "(autocompleteStart s = Some a \<longrightarrow> startPlaceChanged s = Inr s) \<and>
         (autocompleteEnd s = Some a \<longrightarrow> endPlaceChanged s = Inr s)"
  using assms by (simp add: startPlaceChanged_def endPlaceChanged_def)

theorem place_changed_without_geometry_witness:
  "\<exists>a b.
     ac_place a = Some free_text \<and> ac_place b = Some free_text \<and> geometry free_text = None \<and>
     autocompleteStart unresolved_state = Some a \<and> autocompleteEnd unresolved_state = Some b \<and>
     startPlaceChanged unresolved_state = Inr unresolved_state \<and>
     endPlaceChanged unresolved_state = Inr unresolved_state"
proof -
  obtain a where a: "autocompleteStart unresolved_state = Some a"
    and pa: "ac_place a = Some free_text"
    by (simp add: example_defs)
  obtain b where b: "autocompleteEnd unresolved_state = Some b"
    and pb: "ac_place b = Some free_text"
    by (simp add: example_defs)
  have g: "geometry free_text = None"
    by (simp add: free_text_def)
  from place_changed_without_geometry [of a free_text unresolved_state, OF pa g] a
  have start: "startPlaceChanged unresolved_state = Inr unresolved_state" by simp
  from place_changed_without_geometry [of b free_text unresolved_state, OF pb g] b
  have finish: "endPlaceChanged unresolved_state = Inr unresolved_state" by simp
  from pa pb g a b start finish show ?thesis by blast
qed

subsection \<open>The traffic checkbox and the map-type selector\<close>

text \<open>
  C4. In a state where the traffic listener exists (its layer has been created) and the
  view exists: fired on the ticked checkbox, the listener attaches the layer to the
  view; fired then on the unticked checkbox, it sets the layer's map to none. The state
  after the two differs from the starting state in the layer's map at most, which is
  none; when the layer was detached at the start, the round trip gives the starting
  state back.
\<close>

theorem traffic_on_then_off:
  assumes "trafficLayer s = Some t" and "map_var s = Some m"
    and "el_checked ticked" and "\<not> el_checked unticked"
  shows "trafficChange ticked s =
           Inr (s\<lparr>trafficLayer := Some (t\<lparr>tl_map := Some (map_id m)\<rparr>)\<rparr>) \<and>
         trafficChange unticked (s\<lparr>trafficLayer := Some (t\<lparr>tl_map := Some (map_id m)\<rparr>)\<rparr>) =
           Inr (s\<lparr>trafficLayer := Some (t\<lparr>tl_map := None\<rparr>)\<rparr>) \<and>
         (tl_map t = None \<longrightarrow> s\<lparr>trafficLayer := Some (t\<lparr>tl_map := None\<rparr>)\<rparr> = s)"
  using assms by (simp add: trafficChange_def on_trafficLayer_def map_ref_def)

theorem traffic_on_then_off_witness:
  "\<exists>m.
     trafficLayer example_state = Some new_TrafficLayer \<and> map_var example_state = Some m \<and>
     el_checked (plain\<lparr>el_checked := True\<rparr>) \<and> \<not> el_checked plain \<and>
     tl_map new_TrafficLayer = None \<and>
     trafficChange (plain\<lparr>el_checked := True\<rparr>) example_state =
       Inr (example_state\<lparr>trafficLayer := Some \<lparr>tl_map = Some (map_id m)\<rparr>\<rparr>) \<and>
     trafficChange plain (example_state\<lparr>trafficLayer := Some \<lparr>tl_map = Some (map_id m)\<rparr>\<rparr>) =
       Inr example_state"
proof -
  have t: "trafficLayer example_state = Some new_TrafficLayer"
    by (simp add: example_defs)
  have none: "tl_map new_TrafficLayer = None"
    by (simp add: new_TrafficLayer_def)
  obtain m where m: "map_var example_state = Some m"
    by (simp add: example_defs)
  have yes: "el_checked (plain\<lparr>el_checked := True\<rparr>)" by simp
  have no: "\<not> el_checked plain" by (simp add: plain_def)
  have attached: "new_TrafficLayer\<lparr>tl_map := Some (map_id m)\<rparr> = \<lparr>tl_map = Some (map_id m)\<rparr>"
    by (simp add: new_TrafficLayer_def)
  from traffic_on_then_off [OF t m yes no] none
  have "trafficChange (plain\<lparr>el_checked := True\<rparr>) example_state =
           Inr (example_state\<lparr>trafficLayer := Some \<lparr>tl_map = Some (map_id m)\<rparr>\<rparr>)"
    and "trafficChange plain (example_state\<lparr>trafficLayer := Some \<lparr>tl_map = Some (map_id m)\<rparr>\<rparr>) =
           Inr example_state"
    by (simp_all add: attached)
  with t m yes no none show ?thesis by simp
qed

text \<open>
  C6. Fired on the selector, the map-type listener sets the view's map type to the
  selector's value, whatever it is, and changes nothing else: the state afterwards is
  the state before with that one property of the view replaced.
\<close>

theorem mapTypeChange_sets_only_type:
  assumes "map_var s = Some m"
  shows "mapTypeChange this s = Inr (s\<lparr>map_var := Some (m\<lparr>mapTypeId := Some (el_value this)\<rparr>)\<rparr>)"
  using assms by (simp add: mapTypeChange_def on_map_def)

theorem mapTypeChange_sets_only_type_witness:
  "\<exists>m. map_var example_state = Some m \<and>
     mapTypeChange (plain\<lparr>el_value := ''satellite''\<rparr>) example_state =
       Inr (example_state\<lparr>map_var := Some (m\<lparr>mapTypeId := Some ''satellite''\<rparr>)\<rparr>)"
proof -
  obtain m where m: "map_var example_state = Some m"
    by (simp add: example_defs)
  from mapTypeChange_sets_only_type [OF m, of "plain\<lparr>el_value := ''satellite''\<rparr>"] m
  show ?thesis by simp
qed

subsection \<open>Clicks on the map\<close>

text \<open>
  C9. A click that carries a place identifier (there, and not the empty string) is
  stopped, and \<open>getPlaceDetails\<close> is called with that identifier and the clicked
  coordinate: the result is what that call returns, with the event stopped; the request
  it records is for exactly that identifier and coordinate.
\<close>

theorem mapClick_known_place:
  assumes "placeId event = Some pid" and "pid \<noteq> []"
  shows "mapClick event s =
           and_then (getPlaceDetails pid (latLng event) s)
             (\<lambda>s'. Inr (event\<lparr>stopped := True\<rparr>, s')) \<and>
         mapClick event s =
           Inr (event\<lparr>stopped := True\<rparr>,
                s\<lparr>details_requests := details_requests s @ [(pid, latLng event)]\<rparr>)"
  using assms by (simp add: mapClick_def getPlaceDetails_def Let_def)

theorem mapClick_known_place_witness:
  "placeId place_click = Some ''ChIJmRyMs_mAhYARpViaf6JEWNE'' \<and>
   ''ChIJmRyMs_mAhYARpViaf6JEWNE'' \<noteq> [] \<and>
   mapClick place_click example_state =
     Inr (place_click\<lparr>stopped := True\<rparr>,
          example_state\<lparr>details_requests :=
            [(''ChIJmRyMs_mAhYARpViaf6JEWNE'', latLng place_click)]\<rparr>)"
proof -
  have p: "placeId place_click = Some ''ChIJmRyMs_mAhYARpViaf6JEWNE''"
    by (simp add: place_click_def)
  have n: "''ChIJmRyMs_mAhYARpViaf6JEWNE'' \<noteq> []" by simp
  have none: "details_requests example_state = []"
    by (simp add: example_defs)
  from mapClick_known_place [OF p n, of example_state, THEN conjunct2] p none
  show ?thesis by simp
qed

subsection \<open>Clearing the map\<close>

lemma addMarkers_markers:
  "\<exists>s'. addMarkers ms s = Inr s' \<and> length (markers s') = length (markers s) + length ms \<and>
        directionsRenderer s' = directionsRenderer s"
proof (induction ms arbitrary: s)
  case Nil
  then show ?case by simp
next
  case (Cons x xs)
  obtain loc label tag where x: "x = (loc, label, tag)" by (cases x)
  let ?s = "s\<lparr>markers := markers s @ [\<lparr>position = loc, title = label, role = tag\<rparr>]\<rparr>"
  from Cons.IH [of ?s] obtain s' where
    "addMarkers xs ?s = Inr s'" "length (markers s') = length (markers ?s) + length xs"
    "directionsRenderer s' = directionsRenderer ?s"
    by blast
  then show ?case by (simp add: x addMarker_def)
qed

text \<open>
  C5. From any state, after any number of markers have been added, clear map leaves an
  empty marker sequence and no rendered route.
\<close>

theorem clearMap_after_markers:
  "\<exists>s1 s2. addMarkers ms s = Inr s1 \<and>
     length (markers s1) = length (markers s) + length ms \<and>
     clearMap s1 = Inr s2 \<and> markers s2 = [] \<and> length (markers s2) = 0 \<and>
     rendered_route s2 = None"
proof -
  from addMarkers_markers [of ms s] obtain s1 where
    run: "addMarkers ms s = Inr s1"
    and len: "length (markers s1) = length (markers s) + length ms"
    by blast
  let ?s2 = "s1\<lparr>markers := [],
                  directionsRenderer :=
                    (case directionsRenderer s1 of None \<Rightarrow> None
                     | Some r \<Rightarrow> Some (r\<lparr>directions := None\<rparr>))\<rparr>"
  have clear: "clearMap s1 = Inr ?s2" by (simp add: clearMap_def)
  have route: "rendered_route ?s2 = None"
    by (simp add: rendered_route_def split: option.splits)
  from run len clear route show ?thesis by simp
qed

subsection \<open>What initialization builds\<close>

text \<open>
  C8, as the code has it. \<open>initMap\<close> takes no parameters: it looks the container up
  by the identifier \<open>map\<close> and hands what it found to the provider's constructor,
  with zoom 13, the centre on San Francisco and the four controls switched on. When the
  constructor throws, \<open>initMap\<close> throws that error. Otherwise, from any state of the
  script, it has created the view and has constructed the directions service, a
  directions renderer attached to that view (draggable, with the directions panel it
  looked up, no route, and subscribed to \<open>directions_changed\<close>), and the places
  service bound to that view; it has wired autocomplete on the inputs that are present,
  asked for the current location once more, registered the listeners of the controls
  that are present and the click listener of the map, and left the markers alone.
\<close>

theorem initMap_fixed_view_and_wiring:
  "case check (getElementById (document s) ''map'') of
     Some e \<Rightarrow> initMap check s = Inl e
   | None \<Rightarrow>
       (\<exists>s' m r. initMap check s = Inr s' \<and>
          map_var s' = Some m \<and>
          mapDiv m = getElementById (document s) ''map'' \<and>
          zoom m = 13 \<and> center m = san_francisco \<and>
          mapTypeControl m \<and> streetViewControl m \<and> fullscreenControl m \<and> zoomControl m \<and>
          mapTypeId m = None \<and>
          map_listeners m = [(''click'', MapClick)] \<and>
          directionsService s' = Some DirectionsService \<and>
          directionsRenderer s' = Some r \<and>
          dr_map r = Some (map_id m) \<and> draggable r \<and>
          panel r = getElementById (document s) ''directions-panel'' \<and>
          directions r = None \<and>
          dr_listeners r = [(''directions_changed'', DirectionsChanged)] \<and>
          placesService s' = Some \<lparr>ps_map = Some (map_id m)\<rparr> \<and>
          autocompleteStart s' =
            (case document s ''start-location'' of
               None \<Rightarrow> autocompleteStart s
             | Some el \<Rightarrow>
                 Some \<lparr>ac_input = ''start-location'',
                       ac_bindings = [(''bounds'', Some (map_id m))], ac_place = None,
                       ac_listeners = [(''place_changed'', StartPlaceChanged)]\<rparr>) \<and>
          autocompleteEnd s' =
            (case document s ''end-location'' of
               None \<Rightarrow> autocompleteEnd s
             | Some el \<Rightarrow>
                 Some \<lparr>ac_input = ''end-location'',
                       ac_bindings = [(''bounds'', Some (map_id m))], ac_place = None,
                       ac_listeners = [(''place_changed'', EndPlaceChanged)]\<rparr>) \<and>
          geolocation_requests s' = Suc (geolocation_requests s) \<and>
          (\<forall>i. document s' i =
                 map_option (\<lambda>el. el\<lparr>el_listeners := registered i (el_listeners el)\<rparr>)
                   (document s i)) \<and>
          markers s' = markers s)"
proof (cases "check (getElementById (document s) ''map'')")
  case (Some e)
  then show ?thesis by (simp add: initMap_eq)
next
  case None
  let ?s = "initialized s"
  have run: "initMap check s = Inr ?s"
    using None by (simp add: initMap_eq)
  define m where "m =
    \<lparr>zoom = 13, center = \<lparr>lat = 377749 / 10000, lng = - (1224194 / 10000)\<rparr>,
     mapTypeControl = True, streetViewControl = True,
     fullscreenControl = True, zoomControl = True,
     map_id = allocated s, mapDiv = getElementById (document s) ''map'',
     mapTypeId = None, map_listeners = [(''click'', MapClick)]\<rparr>"
  have m: "map_var ?s = Some m"
    by (simp add: initialized_def m_def)
  have first: "map_id m = allocated s"
    and m1: "mapDiv m = getElementById (document s) ''map''" and m2: "zoom m = 13"
    and m3: "center m = san_francisco"
    and m4: "mapTypeControl m" "streetViewControl m" "fullscreenControl m" "zoomControl m"
    and m5: "mapTypeId m = None"
    and m6: "map_listeners m = [(''click'', MapClick)]"
    by (simp_all add: m_def san_francisco_def)
  define r where "r =
    \<lparr>draggable = True, panel = getElementById (document s) ''directions-panel'',
     dr_map = Some (allocated s), directions = None,
     dr_listeners = [(''directions_changed'', DirectionsChanged)]\<rparr>"
  have r: "directionsRenderer ?s = Some r"
    by (simp add: initialized_def r_def)
  have r1: "dr_map r = Some (map_id m)" and r2: "draggable r"
    and r3: "panel r = getElementById (document s) ''directions-panel''"
    and r4: "directions r = None"
    and r5: "dr_listeners r = [(''directions_changed'', DirectionsChanged)]"
    by (simp_all add: r_def first)
  have ds: "directionsService ?s = Some DirectionsService"
    by (simp add: initialized_def)
  have ps: "placesService ?s = Some \<lparr>ps_map = Some (map_id m)\<rparr>"
    by (simp add: initialized_def first)
  have a1: "autocompleteStart ?s =
            (case document s ''start-location'' of
               None \<Rightarrow> autocompleteStart s
             | Some el \<Rightarrow>
                 Some \<lparr>ac_input = ''start-location'',
                       ac_bindings = [(''bounds'', Some (map_id m))], ac_place = None,
                       ac_listeners = [(''place_changed'', StartPlaceChanged)]\<rparr>)"
    by (simp add: initialized_def first cong: option.case_cong)
  have a2: "autocompleteEnd ?s =
            (case document s ''end-location'' of
               None \<Rightarrow> autocompleteEnd s
             | Some el \<Rightarrow>
                 Some \<lparr>ac_input = ''end-location'',
                       ac_bindings = [(''bounds'', Some (map_id m))], ac_place = None,
                       ac_listeners = [(''place_changed'', EndPlaceChanged)]\<rparr>)"
    by (simp add: initialized_def first cong: option.case_cong)
  have g: "geolocation_requests ?s = Suc (geolocation_requests s)"
    by (simp add: initialized_def)
  have d: "\<forall>i. document ?s i =
      map_option (\<lambda>el. el\<lparr>el_listeners := registered i (el_listeners el)\<rparr>) (document s i)"
    by (simp add: initialized_def wired_apply)
  have k: "markers ?s = markers s"
    by (simp add: initialized_def)
  show ?thesis
    unfolding None option.case run
    using m m1 m2 m3 m4 m5 m6 r r1 r2 r3 r4 r5 ds ps a1 a2 g d k
    by (simp cong: option.case_cong)
qed

theorem initMap_fixed_view_and_wiring_witness:
  "(\<exists>s' m r. initMap accepts_all (page_load example_page) = Inr s' \<and>
      map_var s' = Some m \<and> mapDiv m = Some ''map'' \<and> zoom m = 13 \<and>
      center m = san_francisco \<and> map_listeners m = [(''click'', MapClick)] \<and>
      directionsService s' = Some DirectionsService \<and>
      directionsRenderer s' = Some r \<and> dr_map r = Some (map_id m) \<and> panel r = None \<and>
      dr_listeners r = [(''directions_changed'', DirectionsChanged)] \<and>
      placesService s' = Some \<lparr>ps_map = Some (map_id m)\<rparr> \<and>
      autocompleteEnd s' =
        Some \<lparr>ac_input = ''end-location'', ac_bindings = [(''bounds'', Some (map_id m))],
              ac_place = None, ac_listeners = [(''place_changed'', EndPlaceChanged)]\<rparr> \<and>
      geolocation_requests s' = 1 \<and> markers s' = []) \<and>
   initMap rejects_null (page_load no_container_page) = Inl InvalidValueError"
proof -
  have c: "getElementById example_page ''map'' = Some ''map''"
    by (simp add: getElementById_def example_page_def)
  have p: "getElementById example_page ''directions-panel'' = None"
    by (simp add: getElementById_def example_page_def)
  have e: "example_page ''end-location'' = Some (plain\<lparr>el_value := ''Coit Tower''\<rparr>)"
    by (simp add: example_page_def)
  from initMap_fixed_view_and_wiring [of accepts_all "page_load example_page"] c p e
  have first: "\<exists>s' m r. initMap accepts_all (page_load example_page) = Inr s' \<and>
      map_var s' = Some m \<and> mapDiv m = Some ''map'' \<and> zoom m = 13 \<and>
      center m = san_francisco \<and> map_listeners m = [(''click'', MapClick)] \<and>
      directionsService s' = Some DirectionsService \<and>
      directionsRenderer s' = Some r \<and> dr_map r = Some (map_id m) \<and> panel r = None \<and>
      dr_listeners r = [(''directions_changed'', DirectionsChanged)] \<and>
      placesService s' = Some \<lparr>ps_map = Some (map_id m)\<rparr> \<and>
      autocompleteEnd s' =
        Some \<lparr>ac_input = ''end-location'', ac_bindings = [(''bounds'', Some (map_id m))],
              ac_place = None, ac_listeners = [(''place_changed'', EndPlaceChanged)]\<rparr> \<and>
      geolocation_requests s' = 1 \<and> markers s' = []"
    by (auto simp add: accepts_all_def page_load_def)
  from initMap_fixed_view_and_wiring [of rejects_null "page_load no_container_page"]
  have second: "initMap rejects_null (page_load no_container_page) = Inl InvalidValueError"
    by (simp add: rejects_null_def getElementById_def page_load_def no_container_page_def)
  from first second show ?thesis by blast
qed

text \<open>
  C8, as the spec has it, fails: asked for a view in the container \<open>map\<close> centred on
  latitude 0, longitude 0 with zoom 1, initialization has no parameter to take the
  request with, and the view it creates is centred on San Francisco with zoom 13.
\<close>

theorem initMap_takes_no_arguments_counterexample:
  "\<exists>s' m. initMap accepts_all (page_load example_page) = Inr s' \<and>
     map_var s' = Some m \<and> center m = san_francisco \<and> zoom m = 13 \<and>
     \<not> spec_view_created_from (Some ''map'') \<lparr>lat = 0, lng = 0\<rparr> 1 s'"
  by (simp add: initMap_eq accepts_all_def initialized_def san_francisco_def
        spec_view_created_from_def)

subsection \<open>The container and the directions panel\<close>

text \<open>
  C10. \<open>initMap\<close> hands the result of looking up \<open>map\<close> to the provider's constructor
  without testing it: whatever the provider throws for it, \<open>initMap\<close> throws, and in
  particular a provider that throws on \<open>null\<close> makes \<open>initMap\<close> throw on a page
  without the container. When the provider accepts what it is given, the view holds the
  lookup's result as its container and the renderer holds the result of looking up
  \<open>directions-panel\<close> as its panel, \<open>null\<close> included.
\<close>

theorem initMap_container_unguarded:
  "(check (getElementById (document s) ''map'') = Some e \<longrightarrow> initMap check s = Inl e) \<and>
   (document s ''map'' = None \<and> check None = Some e \<longrightarrow> initMap check s = Inl e) \<and>
   (check (getElementById (document s) ''map'') = None \<longrightarrow>
      (\<exists>s' m r. initMap check s = Inr s' \<and>
         map_var s' = Some m \<and> mapDiv m = getElementById (document s) ''map'' \<and>
         directionsRenderer s' = Some r \<and>
         panel r = getElementById (document s) ''directions-panel''))"
proof (intro conjI impI)
  assume "check (getElementById (document s) ''map'') = Some e"
  then show "initMap check s = Inl e" by (simp add: initMap_eq)
next
  assume "document s ''map'' = None \<and> check None = Some e"
  then show "initMap check s = Inl e" by (simp add: initMap_eq getElementById_def)
next
  assume "check (getElementById (document s) ''map'') = None"
  then have "initMap check s = Inr (initialized s)" by (simp add: initMap_eq)
  then show "\<exists>s' m r. initMap check s = Inr s' \<and>
         map_var s' = Some m \<and> mapDiv m = getElementById (document s) ''map'' \<and>
         directionsRenderer s' = Some r \<and>
         panel r = getElementById (document s) ''directions-panel''"
    by (simp add: initialized_def)
qed

theorem initMap_container_unguarded_witness:
  "document (page_load Map.empty) ''map'' = None \<and>
   rejects_null None = Some InvalidValueError \<and>
   rejects_null (getElementById (document (page_load Map.empty)) ''map'') = Some InvalidValueError \<and>
   initMap rejects_null (page_load Map.empty) = Inl InvalidValueError \<and>
   accepts_all (getElementById (document (page_load Map.empty)) ''map'') = None \<and>
   (\<exists>s' m r. initMap accepts_all (page_load Map.empty) = Inr s' \<and>
      map_var s' = Some m \<and> mapDiv m = None \<and>
      directionsRenderer s' = Some r \<and> panel r = None)"
proof -
  let ?s = "page_load Map.empty"
  have absent: "document ?s ''map'' = None" by (simp add: page_load_def)
  have null: "getElementById (document ?s) ''map'' = None"
    by (simp add: page_load_def getElementById_def)
  have null': "getElementById (document ?s) ''directions-panel'' = None"
    by (simp add: page_load_def getElementById_def)
  have rej: "rejects_null None = Some InvalidValueError" by (simp add: rejects_null_def)
  have acc: "accepts_all None = None" by (simp add: accepts_all_def)
  from initMap_container_unguarded [of rejects_null ?s InvalidValueError] absent rej
  have thrown: "initMap rejects_null ?s = Inl InvalidValueError" by simp
  from initMap_container_unguarded [of accepts_all ?s InvalidValueError] acc null null'
  have passed: "\<exists>s' m r. initMap accepts_all ?s = Inr s' \<and>
      map_var s' = Some m \<and> mapDiv m = None \<and>
      directionsRenderer s' = Some r \<and> panel r = None"
    by simp
  from absent rej null acc thrown passed show ?thesis by simp
qed

end
